theory Spec2Isabelle
  imports Complex_Main
begin

section \<open>Conventions of the embedding\<close>

text \<open>
  The program is \<^verbatim>\<open>src/app.py\<close>, a Qt widget that polls the host once per second.
  Everything the program obtains from outside (the metrics library, the thermal-zone
  file, the shell commands, the signal delivery, the clock, the dialogs) is an input of
  the model: a call that may raise is a value of type \<open>exn + 'a\<close>, \<open>Inl\<close> carrying the
  exception. The exceptions are those derived from Python's \<^verbatim>\<open>Exception\<close>.

  Python floats are modelled as reals: rounding to a double and the overflow of a double
  are not modelled. Python integers are \<open>int\<close>.
\<close>

datatype exn =
    ProcessLookupError
  | PermissionError
  | ValueError
  | AttributeError
  | CalledProcessError "string list" int
  | OtherException string

subsection \<open>Rendering and reading integers\<close>

text \<open>\<^verbatim>\<open>str(n)\<close>, as used by the f-strings and by \<^verbatim>\<open>str(proc['pid'])\<close>.\<close>

fun str_nat :: "nat \<Rightarrow> string" where
  "str_nat n = (if n < 10 then [''0123456789'' ! n]
                else str_nat (n div 10) @ [''0123456789'' ! (n mod 10)])"

declare str_nat.simps [simp del]

definition str_int :: "int \<Rightarrow> string" where
  "str_int i = (if i < 0 then CHR ''-'' # str_nat (nat (- i)) else str_nat (nat i))"

text \<open>
  \<^verbatim>\<open>s.strip()\<close> and \<^verbatim>\<open>int(s)\<close> on ASCII text. The white space of \<^verbatim>\<open>str.isspace\<close> in
  that range is 9 to 13, 28 to 31 and 32. \<^verbatim>\<open>int\<close> accepts an optional sign and then
  digits, single underscores allowed between two digits; anything else is a
  \<^verbatim>\<open>ValueError\<close>, here \<open>None\<close>.
\<close>

definition isspace :: "char \<Rightarrow> bool" where
  "isspace c = (let n = (of_char c :: nat) in (9 \<le> n \<and> n \<le> 13) \<or> (28 \<le> n \<and> n \<le> 32))"

definition strip :: "string \<Rightarrow> string" where
  "strip s = rev (dropWhile isspace (rev (dropWhile isspace s)))"

definition isdigit :: "char \<Rightarrow> bool" where
  "isdigit c = (let n = (of_char c :: nat) in 48 \<le> n \<and> n \<le> 57)"

definition digit_value :: "char \<Rightarrow> nat" where
  "digit_value c = of_char c - 48"

fun py_digits :: "nat \<Rightarrow> string \<Rightarrow> nat option" where
  "py_digits acc [] = Some acc"
| "py_digits acc [c] = (if isdigit c then Some (10 * acc + digit_value c) else None)"
| "py_digits acc (c # d # ds) =
     (if isdigit c then py_digits (10 * acc + digit_value c) (d # ds)
      else if c = CHR ''_'' \<and> isdigit d then py_digits (10 * acc + digit_value d) ds
      else None)"

definition py_unsigned :: "string \<Rightarrow> nat option" where
  "py_unsigned s = (case s of [] \<Rightarrow> None
                    | c # cs \<Rightarrow> if isdigit c then py_digits (digit_value c) cs else None)"

definition py_int :: "string \<Rightarrow> int option" where
  "py_int s =
     (case strip s of
        [] \<Rightarrow> None
      | c # cs \<Rightarrow>
          if c = CHR ''-'' then map_option (\<lambda>n. - int n) (py_unsigned cs)
          else if c = CHR ''+'' then map_option int (py_unsigned cs)
          else map_option int (py_unsigned (c # cs)))"

text \<open>\<^verbatim>\<open>int(v)\<close> on a float truncates towards zero.\<close>

definition int_of_float :: "real \<Rightarrow> int" where
  "int_of_float v = (if 0 \<le> v then \<lfloor>v\<rfloor> else \<lceil>v\<rceil>)"

text \<open>Truthiness of a value that is \<^verbatim>\<open>True\<close>, \<^verbatim>\<open>False\<close> or \<^verbatim>\<open>None\<close>.\<close>

definition truthy :: "bool option \<Rightarrow> bool" where
  "truthy b = (b = Some True)"

section \<open>Helper functions\<close>

subsection \<open>\<^verbatim>\<open>get_cpu_temp\<close>\<close>

text \<open>
  The argument is the outcome of opening and reading the thermal-zone file: the
  exception raised, or the text read. The bare \<^verbatim>\<open>except\<close> turns every exception,
  that of \<^verbatim>\<open>int\<close> included, into \<open>0.0\<close>.
\<close>

definition get_cpu_temp :: "exn + string \<Rightarrow> real" where
  "get_cpu_temp file =
     (case file of
        Inl e \<Rightarrow> 0.0
      | Inr content \<Rightarrow>
          (case py_int (strip content) of
             None \<Rightarrow> 0.0
           | Some millis \<Rightarrow> real_of_int millis / 1000))"

subsection \<open>External commands\<close>

text \<open>
  What a command did: it ran and exited with a return code, or it could not be started
  and \<^verbatim>\<open>subprocess.run\<close> raised. With \<^verbatim>\<open>check=True\<close> a non-zero return code is
  raised as \<^verbatim>\<open>CalledProcessError\<close>; with \<^verbatim>\<open>check=False\<close> it is returned.
\<close>

datatype proc_outcome = Exited int | Not_started exn

definition subprocess_run :: "string list \<Rightarrow> bool \<Rightarrow> proc_outcome \<Rightarrow> exn + int" where
  "subprocess_run args check out =
     (case out of
        Not_started e \<Rightarrow> Inl e
      | Exited rc \<Rightarrow> if check \<and> rc \<noteq> 0 then Inl (CalledProcessError args rc) else Inr rc)"

text \<open>
  The privileged actions. \<open>py_str\<close> is Python's \<^verbatim>\<open>str\<close> on an exception object, whose
  text is the library's: it is a parameter.
\<close>

definition clear_ram_cache :: "(exn \<Rightarrow> string) \<Rightarrow> proc_outcome \<Rightarrow> bool \<times> string" where
  "clear_ram_cache py_str out =
     (case subprocess_run
             [''sudo'', ''sh'', ''-c'', ''sync; echo 3 > /proc/sys/vm/drop_caches''] True out of
        Inr rc \<Rightarrow> (True, ''RAM cache cleared successfully!'')
      | Inl e \<Rightarrow> (False, ''Failed to clear RAM cache: '' @ py_str e))"

text \<open>
  The files of \<^verbatim>\<open>~/.cache\<close>, as \<^verbatim>\<open>clear_storage_cache\<close> meets them: whether the
  directory exists, what listing it gives, which entries are directories, and what
  removing an entry does (\<open>None\<close>: removed).
\<close>

record cache_fs =
  home_cache :: string
  exists_home_cache :: bool
  listdir :: "exn + string list"
  isdir :: "string \<Rightarrow> bool"
  rmtree :: "string \<Rightarrow> exn option"
  remove_file :: "string \<Rightarrow> exn option"

definition path_join :: "string \<Rightarrow> string \<Rightarrow> string" where
  "path_join a b =
     (if b \<noteq> [] \<and> hd b = CHR ''/'' then b
      else if a = [] \<or> last a = CHR ''/'' then a @ b
      else a @ ''/'' @ b)"

text \<open>The loop over the entries; the result lists the paths that were removed.\<close>

fun remove_items :: "cache_fs \<Rightarrow> string list \<Rightarrow> string list" where
  "remove_items fs [] = []"
| "remove_items fs (item # items) =
     (let item_path = path_join (home_cache fs) item;
          r = (if isdir fs item_path then rmtree fs item_path else remove_file fs item_path)
      in case r of
           None \<Rightarrow> item_path # remove_items fs items
         | Some e \<Rightarrow> remove_items fs items)"

definition clear_storage_cache ::
    "(exn \<Rightarrow> string) \<Rightarrow> proc_outcome \<Rightarrow> cache_fs \<Rightarrow> (bool \<times> string) \<times> string list" where
  "clear_storage_cache py_str out fs =
     (case subprocess_run [''sudo'', ''rm'', ''-rf'', ''/tmp/*''] False out of
        Inl e \<Rightarrow> ((False, ''Failed to clear storage cache: '' @ py_str e), [])
      | Inr rc \<Rightarrow>
          if exists_home_cache fs then
            (case listdir fs of
               Inl e \<Rightarrow> ((False, ''Failed to clear storage cache: '' @ py_str e), [])
             | Inr items \<Rightarrow>
                 ((True, ''Storage caches cleared successfully!''), remove_items fs items))
          else ((True, ''Storage caches cleared successfully!''), []))"

definition set_power_mode :: "(exn \<Rightarrow> string) \<Rightarrow> string \<Rightarrow> proc_outcome \<Rightarrow> bool \<times> string" where
  "set_power_mode py_str mode out =
     (case subprocess_run [''sudo'', ''powerprofilesctl'', ''set'', mode] True out of
        Inr rc \<Rightarrow> (True, ''Power mode set to '' @ mode)
      | Inl e \<Rightarrow> (False, ''Failed to set power mode: '' @ py_str e))"

text \<open>
  \<^verbatim>\<open>kill_process\<close>: \<open>os_kill pid\<close> is what \<^verbatim>\<open>os.kill(pid, signal.SIGTERM)\<close> does,
  \<open>None\<close> when the signal is sent, otherwise the exception raised. The \<^verbatim>\<open>except\<close> clauses are tried in the source's
  order.
\<close>

definition kill_process :: "(exn \<Rightarrow> string) \<Rightarrow> (int \<Rightarrow> exn option) \<Rightarrow> int \<Rightarrow> bool \<times> string" where
  "kill_process py_str os_kill pid =
     (case os_kill pid of
        None \<Rightarrow> (True, ''Process '' @ str_int pid @ '' terminated successfully'')
      | Some e \<Rightarrow>
          if e = ProcessLookupError then (False, ''Process '' @ str_int pid @ '' not found'')
          else if e = PermissionError then
            (False, ''Permission denied to kill process '' @ str_int pid)
          else (False, ''Failed to kill process: '' @ py_str e))"

subsection \<open>Metrics\<close>

text \<open>
  The tuples of the metrics library, with the fields the program reads.
  \<open>power_plugged\<close> is \<^verbatim>\<open>True\<close>, \<^verbatim>\<open>False\<close> or \<^verbatim>\<open>None\<close>; \<open>secsleft\<close> is a number of
  seconds or one of the two library constants.
\<close>

record sbattery =
  bat_percent :: real
  secsleft :: int
  power_plugged :: "bool option"

record sdiskusage =
  du_total :: int
  du_used :: int
  du_free :: int
  du_percent :: real

record snetio =
  bytes_sent :: int
  bytes_recv :: int

record svmem =
  vm_total :: int
  vm_used :: int
  vm_percent :: real

record proc_info =
  pi_pid :: int
  pi_name :: string
  pi_cpu_percent :: real
  pi_memory_percent :: real

definition POWER_TIME_UNKNOWN :: int where
  "POWER_TIME_UNKNOWN = - 1"

definition POWER_TIME_UNLIMITED :: int where
  "POWER_TIME_UNLIMITED = - 2"

text \<open>The dictionaries the helper functions return.\<close>

record battery_info =
  bi_status :: string
  bi_percent :: real
  bi_time :: string
  bi_plugged :: "bool option"

record disk_info =
  di_total :: real
  di_used :: real
  di_free :: real
  di_percent :: real

record net_info =
  ni_sent :: real
  ni_recv :: real

definition get_battery_info :: "exn + sbattery option \<Rightarrow> exn + battery_info option" where
  "get_battery_info sensors_battery =
     (case sensors_battery of
        Inl e \<Rightarrow> Inl e
      | Inr None \<Rightarrow> Inr None
      | Inr (Some battery) \<Rightarrow>
          (let charging = (if truthy (power_plugged battery) then ''Charging'' else ''Discharging'');
               secs_left = secsleft battery;
               time_str =
                 (if secs_left = POWER_TIME_UNLIMITED then ''Plugged In''
                  else if secs_left = POWER_TIME_UNKNOWN then ''Calculating...''
                  else (let hrs = secs_left div 3600; mins = (secs_left mod 3600) div 60
                        in str_int hrs @ ''h '' @ str_int mins @ ''m''))
           in Inr (Some \<lparr>bi_status = charging, bi_percent = bat_percent battery,
                          bi_time = time_str, bi_plugged = power_plugged battery\<rparr>)))"

definition get_disk_info :: "exn + sdiskusage \<Rightarrow> exn + disk_info" where
  "get_disk_info disk_usage =
     (case disk_usage of
        Inl e \<Rightarrow> Inl e
      | Inr usage \<Rightarrow>
          Inr \<lparr>di_total = real_of_int (du_total usage) / (1024 ^ 3),
               di_used = real_of_int (du_used usage) / (1024 ^ 3),
               di_free = real_of_int (du_free usage) / (1024 ^ 3),
               di_percent = du_percent usage\<rparr>)"

definition get_network_info :: "exn + snetio \<Rightarrow> exn + net_info" where
  "get_network_info net_io_counters =
     (case net_io_counters of
        Inl e \<Rightarrow> Inl e
      | Inr net \<Rightarrow>
          Inr \<lparr>ni_sent = real_of_int (bytes_sent net) / (1024 ^ 2),
               ni_recv = real_of_int (bytes_recv net) / (1024 ^ 2)\<rparr>)"

text \<open>
  \<^verbatim>\<open>get_top_processes\<close>: the iteration over the processes may raise as a whole; inside
  the loop an entry whose \<^verbatim>\<open>info\<close> raises is skipped. \<^verbatim>\<open>sorted(..., reverse=True)\<close> is
  stable: entries with equal keys keep their order.
\<close>

fun collect_info :: "(exn + proc_info) list \<Rightarrow> proc_info list" where
  "collect_info [] = []"
| "collect_info (Inr info # procs) = info # collect_info procs"
| "collect_info (Inl e # procs) = collect_info procs"

definition sorted_reverse :: "('a \<Rightarrow> real) \<Rightarrow> 'a list \<Rightarrow> 'a list" where
  "sorted_reverse key xs = rev (sort_key key (rev xs))"

definition get_top_processes ::
    "nat \<Rightarrow> exn + (exn + proc_info) list \<Rightarrow> exn + proc_info list" where
  "get_top_processes limit process_iter =
     (case process_iter of
        Inl e \<Rightarrow> Inl e
      | Inr procs \<Rightarrow> Inr (take limit (sorted_reverse pi_cpu_percent (collect_info procs))))"

section \<open>Styled components\<close>

text \<open>
  A \<^verbatim>\<open>StyledProgressBar\<close> is its value and the colour of its chunk. The bar keeps Qt's
  default range 0 to 100, and Qt's \<^verbatim>\<open>setValue\<close> leaves the value alone when the new one
  is outside the range.
\<close>

record bar =
  bar_value :: int
  chunk_color :: string

definition setValue :: "int \<Rightarrow> bar \<Rightarrow> bar" where
  "setValue v b = (if 0 \<le> v \<and> v \<le> 100 then b\<lparr>bar_value := v\<rparr> else b)"

definition update_color :: "real \<Rightarrow> bar \<Rightarrow> bar" where
  "update_color v b =
     (let color = (if v < 60 then ''#4CAF50''
                   else if v < 85 then ''#FF9800''
                   else ''#F44336'')
      in b\<lparr>chunk_color := color\<rparr>)"

definition StyledProgressBar :: bar where
  "StyledProgressBar = \<lparr>bar_value = - 1, chunk_color = ''#4CAF50''\<rparr>"

text \<open>
  The bands of the specification and the colour each one stands for: a second
  description of \<open>update_color\<close>, to be compared with it.
\<close>

datatype band = Nominal | Elevated | Critical

definition spec_band :: "real \<Rightarrow> band" where
  "spec_band v = (if v < 60 then Nominal else if 60 \<le> v \<and> v < 85 then Elevated else Critical)"

fun band_color :: "band \<Rightarrow> string" where
  "band_color Nominal = ''#4CAF50''"
| "band_color Elevated = ''#FF9800''"
| "band_color Critical = ''#F44336''"

text \<open>
  A \<^verbatim>\<open>QLineSeries\<close> with its x axis: the points in order, and the range of the axis.
\<close>

record series =
  points :: "(int \<times> real) list"
  axis_x :: "int \<times> int"

definition append_point :: "int \<Rightarrow> real \<Rightarrow> series \<Rightarrow> series" where
  "append_point px py s = s\<lparr>points := points s @ [(px, py)]\<rparr>"

definition count :: "series \<Rightarrow> nat" where
  "count s = length (points s)"

definition remove_at :: "nat \<Rightarrow> series \<Rightarrow> series" where
  "remove_at i s = s\<lparr>points := take i (points s) @ drop (Suc i) (points s)\<rparr>"

definition setRange :: "int \<Rightarrow> int \<Rightarrow> series \<Rightarrow> series" where
  "setRange lo hi s = s\<lparr>axis_x := (lo, hi)\<rparr>"

definition QLineSeries :: series where
  "QLineSeries = \<lparr>points = [], axis_x = (0, 60)\<rparr>"

section \<open>The main window\<close>

text \<open>
  The text of a label is kept as the values the f-string is filled with; the rendering
  of a float with a fixed number of decimals is the library's. \<open>Initial_text\<close> is the
  text a label is constructed with.
\<close>

datatype label_text =
    Initial_text
  | Usage real
  | Temperature real
  | GB_of real real
  | Sent_MB real
  | Received_MB real
  | Battery_status string real
  | No_battery_detected
  | System_uptime int int

record table_row =
  cell_pid :: string
  cell_name :: string
  cell_cpu :: real
  cell_memory :: real

record monitor =
  cpu_label :: label_text
  cpu_temp_label :: label_text
  cpu_bar :: bar
  ram_label :: label_text
  ram_details :: label_text
  ram_bar :: bar
  disk_label :: label_text
  disk_bar :: bar
  network_sent_label :: label_text
  network_recv_label :: label_text
  battery_label :: label_text
  battery_bar :: bar
  uptime_label :: label_text
  cpu_series :: series
  ram_series :: series
  process_table :: "table_row list"
  log_output :: "string list"
  self_x :: int
  network_baseline :: net_info

text \<open>
  \<^verbatim>\<open>__init__\<close>: the widgets of \<^verbatim>\<open>setup_ui\<close>, then the tick counter and the network
  baseline. The timer is what delivers the \<open>Timeout\<close> events below.
\<close>

definition setup_ui :: "net_info \<Rightarrow> monitor" where
  "setup_ui baseline =
     \<lparr>cpu_label = Initial_text, cpu_temp_label = Initial_text, cpu_bar = StyledProgressBar,
      ram_label = Initial_text, ram_details = Initial_text, ram_bar = StyledProgressBar,
      disk_label = Initial_text, disk_bar = StyledProgressBar,
      network_sent_label = Initial_text, network_recv_label = Initial_text,
      battery_label = Initial_text, battery_bar = StyledProgressBar,
      uptime_label = Initial_text,
      cpu_series = QLineSeries, ram_series = QLineSeries,
      process_table = [], log_output = [],
      self_x = 0, network_baseline = baseline\<rparr>"

definition init :: "exn + snetio \<Rightarrow> exn + monitor" where
  "init net_io_counters =
     (case get_network_info net_io_counters of
        Inl e \<Rightarrow> Inl e
      | Inr baseline \<Rightarrow> Inr (setup_ui baseline))"

subsection \<open>\<^verbatim>\<open>update_stats\<close>\<close>

text \<open>What the host answers during one tick, call by call.\<close>

record tick_env =
  cpu_percent :: "exn + real"
  virtual_memory :: "exn + svmem"
  thermal_zone0 :: "exn + string"
  sensors_battery :: "exn + sbattery option"
  disk_usage :: "exn + sdiskusage"
  net_io_counters :: "exn + snetio"
  now_timestamp :: real
  boot_time :: "exn + real"
  process_iter :: "exn + (exn + proc_info) list"

text \<open>The six reads that open \<^verbatim>\<open>update_stats\<close>, in the source's order.\<close>

record readings =
  rd_cpu :: real
  rd_ram_info :: svmem
  rd_temp :: real
  rd_battery_info :: "battery_info option"
  rd_disk_info :: disk_info
  rd_network_info :: net_info

definition read_metrics :: "tick_env \<Rightarrow> exn + readings" where
  "read_metrics env =
     (case cpu_percent env of Inl e \<Rightarrow> Inl e | Inr cpu \<Rightarrow>
      case virtual_memory env of Inl e \<Rightarrow> Inl e | Inr ram_info \<Rightarrow>
      let temp = get_cpu_temp (thermal_zone0 env) in
      case get_battery_info (sensors_battery env) of Inl e \<Rightarrow> Inl e | Inr battery_info \<Rightarrow>
      case get_disk_info (disk_usage env) of Inl e \<Rightarrow> Inl e | Inr disk_info \<Rightarrow>
      case get_network_info (net_io_counters env) of Inl e \<Rightarrow> Inl e | Inr network_info \<Rightarrow>
      Inr \<lparr>rd_cpu = cpu, rd_ram_info = ram_info, rd_temp = temp,
           rd_battery_info = battery_info, rd_disk_info = disk_info,
           rd_network_info = network_info\<rparr>)"

text \<open>The blocks of \<^verbatim>\<open>update_stats\<close>, one definition for each comment of the source.\<close>

definition update_cpu :: "real \<Rightarrow> real \<Rightarrow> monitor \<Rightarrow> monitor" where
  "update_cpu cpu temp self =
     self\<lparr>cpu_label := Usage cpu,
          cpu_temp_label := Temperature temp,
          cpu_bar := update_color cpu (setValue (int_of_float cpu) (cpu_bar self))\<rparr>"

definition update_ram :: "svmem \<Rightarrow> monitor \<Rightarrow> monitor" where
  "update_ram ram_info self =
     (let ram_percent = vm_percent ram_info;
          ram_used = real_of_int (vm_used ram_info) / (1024 ^ 3);
          ram_total = real_of_int (vm_total ram_info) / (1024 ^ 3)
      in self\<lparr>ram_label := Usage ram_percent,
               ram_details := GB_of ram_used ram_total,
               ram_bar := update_color ram_percent
                            (setValue (int_of_float ram_percent) (ram_bar self))\<rparr>)"

definition update_disk :: "disk_info \<Rightarrow> monitor \<Rightarrow> monitor" where
  "update_disk disk_info self =
     self\<lparr>disk_label := GB_of (di_used disk_info) (di_total disk_info),
          disk_bar := update_color (di_percent disk_info)
                        (setValue (int_of_float (di_percent disk_info)) (disk_bar self))\<rparr>"

definition update_network :: "net_info \<Rightarrow> monitor \<Rightarrow> monitor" where
  "update_network network_info self =
     (let net_sent = ni_sent network_info - ni_sent (network_baseline self);
          net_recv = ni_recv network_info - ni_recv (network_baseline self)
      in self\<lparr>network_sent_label := Sent_MB net_sent,
               network_recv_label := Received_MB net_recv\<rparr>)"

text \<open>The value the battery bar is coloured by.\<close>

definition battery_monitored :: "battery_info \<Rightarrow> real" where
  "battery_monitored battery_info =
     (if \<not> truthy (bi_plugged battery_info) then 100 - bi_percent battery_info else 0)"

definition update_battery :: "battery_info option \<Rightarrow> monitor \<Rightarrow> monitor" where
  "update_battery battery_info self =
     (case battery_info of
        Some info \<Rightarrow>
          self\<lparr>battery_label := Battery_status (bi_status info) (bi_percent info),
               battery_bar := update_color (battery_monitored info)
                                (setValue (int_of_float (bi_percent info)) (battery_bar self))\<rparr>
      | None \<Rightarrow>
          self\<lparr>battery_label := No_battery_detected,
               battery_bar := setValue 0 (battery_bar self)\<rparr>)"

definition update_uptime :: "real \<Rightarrow> real \<Rightarrow> monitor \<Rightarrow> monitor" where
  "update_uptime now boot self =
     (let uptime_seconds = int_of_float (now - boot);
          uptime_hours = uptime_seconds div 3600;
          uptime_minutes = (uptime_seconds mod 3600) div 60
      in self\<lparr>uptime_label := System_uptime uptime_hours uptime_minutes\<rparr>)"

definition update_charts :: "real \<Rightarrow> real \<Rightarrow> monitor \<Rightarrow> monitor" where
  "update_charts cpu ram_percent self =
     (let cpu_s = append_point (self_x self) cpu (cpu_series self);
          ram_s = append_point (self_x self) ram_percent (ram_series self);
          x' = self_x self + 1;
          cpu_s = (if count cpu_s > 60 then remove_at 0 cpu_s else cpu_s);
          ram_s = (if count ram_s > 60 then remove_at 0 ram_s else ram_s)
      in self\<lparr>cpu_series := setRange (max 0 (x' - 60)) x' cpu_s,
               ram_series := setRange (max 0 (x' - 60)) x' ram_s,
               self_x := x'\<rparr>)"

definition row_of :: "proc_info \<Rightarrow> table_row" where
  "row_of proc = \<lparr>cell_pid = str_int (pi_pid proc), cell_name = pi_name proc,
                  cell_cpu = pi_cpu_percent proc, cell_memory = pi_memory_percent proc\<rparr>"

definition update_process_table :: "proc_info list \<Rightarrow> monitor \<Rightarrow> monitor" where
  "update_process_table processes self = self\<lparr>process_table := map row_of processes\<rparr>"

text \<open>
  \<^verbatim>\<open>update_stats\<close> returns the exception that leaves it, if any, and the window as the
  statements executed so far have left it.
\<close>

definition update_stats :: "tick_env \<Rightarrow> monitor \<Rightarrow> exn option \<times> monitor" where
  "update_stats env self =
     (case read_metrics env of
        Inl e \<Rightarrow> (Some e, self)
      | Inr r \<Rightarrow>
          (let s1 = update_battery (rd_battery_info r)
                      (update_network (rd_network_info r)
                        (update_disk (rd_disk_info r)
                          (update_ram (rd_ram_info r)
                            (update_cpu (rd_cpu r) (rd_temp r) self))))
           in case boot_time env of
                Inl e \<Rightarrow> (Some e, s1)
              | Inr boot \<Rightarrow>
                  (let s2 = update_charts (rd_cpu r) (vm_percent (rd_ram_info r))
                              (update_uptime (now_timestamp env) boot s1)
                   in case get_top_processes 10 (process_iter env) of
                        Inl e \<Rightarrow> (Some e, s2)
                      | Inr processes \<Rightarrow> (None, update_process_table processes s2))))"

subsection \<open>The action handlers\<close>

text \<open>
  The message boxes a handler opens, in order. \<open>Confirm_termination\<close> is the question
  of \<^verbatim>\<open>kill_selected_process\<close>, with the process name and the pid of its text.
\<close>

datatype dialog =
    Confirm_termination string int
  | Information string string
  | Warning string string

text \<open>\<^verbatim>\<open>log_message\<close>; \<open>timestamp\<close> is the clock rendered as \<^verbatim>\<open>%H:%M:%S\<close>.\<close>

definition log_message :: "string \<Rightarrow> string \<Rightarrow> monitor \<Rightarrow> monitor" where
  "log_message timestamp message self =
     self\<lparr>log_output := log_output self @ [''['' @ timestamp @ ''] '' @ message]\<rparr>"

definition feedback :: "bool \<Rightarrow> string \<Rightarrow> dialog" where
  "feedback success message =
     (if success then Information ''Success'' message else Warning ''Error'' message)"

text \<open>
  \<^verbatim>\<open>kill_selected_process\<close>: \<open>selected_rows\<close> are the rows of the selected items,
  \<open>reply_yes\<close> the answer to the question. A row without an item makes \<^verbatim>\<open>item(row, 0)\<close>
  \<^verbatim>\<open>None\<close>, whose \<^verbatim>\<open>text\<close> is an \<^verbatim>\<open>AttributeError\<close>; neither it nor the \<^verbatim>\<open>ValueError\<close>
  of \<^verbatim>\<open>int\<close> is caught.
\<close>

definition kill_selected_process ::
    "(exn \<Rightarrow> string) \<Rightarrow> (int \<Rightarrow> exn option) \<Rightarrow> nat list \<Rightarrow> bool \<Rightarrow> string \<Rightarrow> monitor
       \<Rightarrow> exn option \<times> dialog list \<times> monitor" where
  "kill_selected_process py_str os_kill selected_rows reply_yes timestamp self =
     (case selected_rows of
        [] \<Rightarrow> (None, [Warning ''No Selection'' ''Please select a process to terminate.''], self)
      | row # _ \<Rightarrow>
          if length (process_table self) \<le> row then (Some AttributeError, [], self)
          else
            (case py_int (cell_pid (process_table self ! row)) of
               None \<Rightarrow> (Some ValueError, [], self)
             | Some pid \<Rightarrow>
                 (let process_name = cell_name (process_table self ! row) in
                  if reply_yes then
                    (case kill_process py_str os_kill pid of
                       (success, message) \<Rightarrow>
                         (None,
                          [Confirm_termination process_name pid, feedback success message],
                          log_message timestamp message self))
                  else (None, [Confirm_termination process_name pid], self))))"

definition apply_power_mode ::
    "(exn \<Rightarrow> string) \<Rightarrow> string \<Rightarrow> proc_outcome \<Rightarrow> string \<Rightarrow> monitor \<Rightarrow> dialog \<times> monitor" where
  "apply_power_mode py_str mode out timestamp self =
     (case set_power_mode py_str mode out of
        (success, message) \<Rightarrow> (feedback success message, log_message timestamp message self))"

definition clear_ram_cache_action ::
    "(exn \<Rightarrow> string) \<Rightarrow> proc_outcome \<Rightarrow> string \<Rightarrow> monitor \<Rightarrow> dialog \<times> monitor" where
  "clear_ram_cache_action py_str out timestamp self =
     (case clear_ram_cache py_str out of
        (success, message) \<Rightarrow> (feedback success message, log_message timestamp message self))"

definition clear_storage_cache_action ::
    "(exn \<Rightarrow> string) \<Rightarrow> proc_outcome \<Rightarrow> cache_fs \<Rightarrow> string \<Rightarrow> monitor \<Rightarrow> dialog \<times> monitor" where
  "clear_storage_cache_action py_str out fs timestamp self =
     (case fst (clear_storage_cache py_str out fs) of
        (success, message) \<Rightarrow> (feedback success message, log_message timestamp message self))"

subsection \<open>The event loop\<close>

text \<open>
  The window is driven by the timer and by the four buttons, one event at a time on a
  single thread. Each event carries what the host and the user answer while it is
  handled. \<open>handle\<close> gives the window as the handler leaves it, also when an exception
  leaves the handler.
\<close>

datatype event =
    Timeout tick_env
  | End_process_clicked "int \<Rightarrow> exn option" "nat list" bool string
  | Apply_clicked string proc_outcome string
  | Clear_ram_clicked proc_outcome string
  | Clear_storage_clicked proc_outcome cache_fs string

fun handle :: "(exn \<Rightarrow> string) \<Rightarrow> monitor \<Rightarrow> event \<Rightarrow> monitor" where
  "handle py_str self (Timeout env) = snd (update_stats env self)"
| "handle py_str self (End_process_clicked os_kill selected_rows reply_yes timestamp) =
     snd (snd (kill_selected_process py_str os_kill selected_rows reply_yes timestamp self))"
| "handle py_str self (Apply_clicked mode out timestamp) =
     snd (apply_power_mode py_str mode out timestamp self)"
| "handle py_str self (Clear_ram_clicked out timestamp) =
     snd (clear_ram_cache_action py_str out timestamp self)"
| "handle py_str self (Clear_storage_clicked out fs timestamp) =
     snd (clear_storage_cache_action py_str out fs timestamp self)"

definition run :: "(exn \<Rightarrow> string) \<Rightarrow> event list \<Rightarrow> monitor \<Rightarrow> monitor" where
  "run py_str events self = foldl (handle py_str) self events"

text \<open>
  A tick records a sample when it reaches the chart update: the six reads and the read
  of the boot time have returned. \<open>samples\<close> counts these ticks.
\<close>

fun records_sample :: "event \<Rightarrow> bool" where
  "records_sample (Timeout env) =
     (case read_metrics env of
        Inl e \<Rightarrow> False
      | Inr r \<Rightarrow> (case boot_time env of Inl e \<Rightarrow> False | Inr boot \<Rightarrow> True))"
| "records_sample ev = False"

definition samples :: "event list \<Rightarrow> nat" where
  "samples events = length (filter records_sample events)"

text \<open>
  The tick indices a series holds, oldest first, and the sliding window that the charts
  keep: after \<open>n\<close> samples the counter is \<open>n\<close> and both series hold the indices from
  \<open>max 0 (n - 60)\<close> to \<open>n - 1\<close>.
\<close>

definition ticks_of :: "series \<Rightarrow> int list" where
  "ticks_of s = map fst (points s)"

definition window :: "nat \<Rightarrow> monitor \<Rightarrow> bool" where
  "window n m = (self_x m = int n
                  \<and> ticks_of (cpu_series m) = [max 0 (int n - 60) .. int n - 1]
                  \<and> ticks_of (ram_series m) = [max 0 (int n - 60) .. int n - 1])"

section \<open>A host for the examples\<close>

text \<open>
  A host on which every source answers: a laptop on battery at 30 percent, 45 degrees,
  one process listed.
\<close>

definition quiet_host :: tick_env where
  "quiet_host =
     \<lparr>cpu_percent = Inr 12.5,
      virtual_memory = Inr \<lparr>vm_total = 8589934592, vm_used = 4294967296, vm_percent = 50\<rparr>,
      thermal_zone0 = Inr (''45000'' @ [CHR 0x0A]),
      sensors_battery = Inr (Some \<lparr>bat_percent = 30, secsleft = 5400, power_plugged = Some False\<rparr>),
      disk_usage = Inr \<lparr>du_total = 107374182400, du_used = 53687091200,
                        du_free = 53687091200, du_percent = 50\<rparr>,
      net_io_counters = Inr \<lparr>bytes_sent = 3145728, bytes_recv = 5242880\<rparr>,
      now_timestamp = 1000000,
      boot_time = Inr 990000,
      process_iter = Inr [Inr \<lparr>pi_pid = 4242, pi_name = ''python3'',
                               pi_cpu_percent = 7.5, pi_memory_percent = 1.5\<rparr>]\<rparr>"

section \<open>Conditions on the sources of a tick\<close>

text \<open>
  The thermal-zone file is unreadable when opening or reading it raises, or when its
  text is not an integer. \<open>others_answer\<close>: every source of a tick other than the
  thermal-zone file returns (an absent battery is the answer \<^verbatim>\<open>None\<close>).
\<close>

definition unreadable :: "exn + string \<Rightarrow> bool" where
  "unreadable file = (case file of Inl e \<Rightarrow> True | Inr content \<Rightarrow> py_int (strip content) = None)"

definition others_answer :: "tick_env \<Rightarrow> bool" where
  "others_answer env =
     (\<not> isl (cpu_percent env) \<and> \<not> isl (virtual_memory env) \<and> \<not> isl (sensors_battery env)
      \<and> \<not> isl (disk_usage env) \<and> \<not> isl (net_io_counters env) \<and> \<not> isl (boot_time env)
      \<and> \<not> isl (process_iter env))"

text \<open>
  For the examples of the actions: a rendering of exceptions, a host on which process
  77 can be signalled, process 1 belongs to another user and process 4242 has gone, and
  a cache directory with one subdirectory that cannot be removed and one file that can.
\<close>

definition example_str :: "exn \<Rightarrow> string" where
  "example_str e = (case e of OtherException name \<Rightarrow> name | _ \<Rightarrow> ''error'')"

definition example_kill :: "int \<Rightarrow> exn option" where
  "example_kill pid =
     (if pid = 1 then Some PermissionError
      else if pid = 4242 then Some ProcessLookupError
      else if pid = 77 then None
      else Some (OtherException ''OverflowError''))"

definition example_cache :: cache_fs where
  "example_cache =
     \<lparr>home_cache = ''/home/user/.cache'',
      exists_home_cache = True,
      listdir = Inr [''pip'', ''thumbs.db''],
      isdir = (\<lambda>path. path = ''/home/user/.cache/pip''),
      rmtree = (\<lambda>path. Some PermissionError),
      remove_file = (\<lambda>path. None)\<rparr>"

text \<open>The same host a little later: one more megabyte has been sent.\<close>

definition busier_host :: tick_env where
  "busier_host = quiet_host\<lparr>net_io_counters := Inr \<lparr>bytes_sent = 4194304, bytes_recv = 5242880\<rparr>\<rparr>"

section \<open>Properties\<close>

subsection \<open>What each block of a tick leaves alone\<close>

lemma frame_update_cpu [simp]:
  "cpu_series (update_cpu c t m) = cpu_series m"
  "ram_series (update_cpu c t m) = ram_series m"
  "self_x (update_cpu c t m) = self_x m"
  "network_baseline (update_cpu c t m) = network_baseline m"
  by (simp_all add: update_cpu_def)

lemma frame_update_ram [simp]:
  "cpu_series (update_ram i m) = cpu_series m"
  "ram_series (update_ram i m) = ram_series m"
  "self_x (update_ram i m) = self_x m"
  "network_baseline (update_ram i m) = network_baseline m"
  by (simp_all add: update_ram_def Let_def)

lemma frame_update_disk [simp]:
  "cpu_series (update_disk i m) = cpu_series m"
  "ram_series (update_disk i m) = ram_series m"
  "self_x (update_disk i m) = self_x m"
  "network_baseline (update_disk i m) = network_baseline m"
  by (simp_all add: update_disk_def)

lemma frame_update_network [simp]:
  "cpu_series (update_network i m) = cpu_series m"
  "ram_series (update_network i m) = ram_series m"
  "self_x (update_network i m) = self_x m"
  "network_baseline (update_network i m) = network_baseline m"
  by (simp_all add: update_network_def Let_def)

lemma frame_update_battery [simp]:
  "cpu_series (update_battery i m) = cpu_series m"
  "ram_series (update_battery i m) = ram_series m"
  "self_x (update_battery i m) = self_x m"
  "network_baseline (update_battery i m) = network_baseline m"
  by (simp_all add: update_battery_def split: option.splits)

lemma frame_update_uptime [simp]:
  "cpu_series (update_uptime a b m) = cpu_series m"
  "ram_series (update_uptime a b m) = ram_series m"
  "self_x (update_uptime a b m) = self_x m"
  "network_baseline (update_uptime a b m) = network_baseline m"
  by (simp_all add: update_uptime_def Let_def)

lemma frame_update_process_table [simp]:
  "cpu_series (update_process_table ps m) = cpu_series m"
  "ram_series (update_process_table ps m) = ram_series m"
  "self_x (update_process_table ps m) = self_x m"
  "network_baseline (update_process_table ps m) = network_baseline m"
  by (simp_all add: update_process_table_def)

lemma frame_log_message [simp]:
  "cpu_series (log_message t msg m) = cpu_series m"
  "ram_series (log_message t msg m) = ram_series m"
  "self_x (log_message t msg m) = self_x m"
  "network_baseline (log_message t msg m) = network_baseline m"
  by (simp_all add: log_message_def)

lemma frame_update_charts [simp]:
  "self_x (update_charts c r m) = self_x m + 1"
  "network_baseline (update_charts c r m) = network_baseline m"
  by (simp_all add: update_charts_def Let_def)

lemma slide:
  assumes "ps = [max 0 (int n - 60) .. int n - 1]"
  shows "(if 60 < length (ps @ [int n]) then take 0 (ps @ [int n]) @ drop (Suc 0) (ps @ [int n])
          else ps @ [int n]) = [max 0 (int n + 1 - 60) .. int n]"
proof (cases "n < 60")
  case True
  then have "ps @ [int n] = [0 .. int n]"
    using assms by (simp add: upto_rec2 [of 0 "int n"])
  with True show ?thesis by simp
next
  case False
  then have a: "ps @ [int n] = [int n - 60 .. int n]"
    using assms by (simp add: upto_rec2 [of "int n - 60" "int n"])
  have "[int n - 60 .. int n] = (int n - 60) # [int n - 59 .. int n]"
    by (simp add: upto_rec1 [of "int n - 60" "int n"])
  with a False show ?thesis by simp
qed

lemma ticks_update_charts:
  assumes "self_x m = int n" "ticks_of (cpu_series m) = [max 0 (int n - 60) .. int n - 1]"
    "ticks_of (ram_series m) = [max 0 (int n - 60) .. int n - 1]"
  shows "ticks_of (cpu_series (update_charts c r m)) = [max 0 (int n + 1 - 60) .. int n]"
    and "ticks_of (ram_series (update_charts c r m)) = [max 0 (int n + 1 - 60) .. int n]"
  using slide [OF assms(2) [symmetric, THEN sym]] slide [OF assms(3) [symmetric, THEN sym]] assms(1)
  by (simp_all add: update_charts_def Let_def ticks_of_def append_point_def count_def
        remove_at_def setRange_def drop_map split: if_splits)


lemma window_charts:
  "window n m \<Longrightarrow> window (Suc n) (update_charts c r m)"
  using ticks_update_charts [of m n c r] by (simp add: window_def)

lemma window_frame:
  "cpu_series m' = cpu_series m \<Longrightarrow> ram_series m' = ram_series m \<Longrightarrow> self_x m' = self_x m
     \<Longrightarrow> window n m \<Longrightarrow> window n m'"
  by (simp add: window_def)

lemma window_update_stats:
  assumes "window n m"
  shows "window (if records_sample (Timeout env) then Suc n else n) (snd (update_stats env m))"
proof (cases "read_metrics env")
  case (Inl e)
  with assms show ?thesis by (simp add: update_stats_def)
next
  case (Inr r)
  let ?s1 = "update_battery (rd_battery_info r) (update_network (rd_network_info r)
              (update_disk (rd_disk_info r) (update_ram (rd_ram_info r)
                (update_cpu (rd_cpu r) (rd_temp r) m))))"
  have s1: "window n ?s1" using assms by (rule window_frame [rotated 3]) simp_all
  show ?thesis
  proof (cases "boot_time env")
    case (Inl e)
    with Inr s1 show ?thesis by (simp add: update_stats_def Let_def)
  next
    case boot: (Inr b)
    have "window n (update_uptime (now_timestamp env) b ?s1)"
      using s1 by (rule window_frame [rotated 3]) simp_all
    then have s2: "window (Suc n) (update_charts (rd_cpu r) (vm_percent (rd_ram_info r))
                     (update_uptime (now_timestamp env) b ?s1))"
      by (rule window_charts)
    then have "window (Suc n) (update_process_table ps (update_charts (rd_cpu r)
                 (vm_percent (rd_ram_info r)) (update_uptime (now_timestamp env) b ?s1)))" for ps
      by (rule window_frame [rotated 3]) simp_all
    with s2 Inr boot show ?thesis
      by (simp add: update_stats_def Let_def split: sum.splits)
  qed
qed

lemma window_handle:
  assumes "window n m"
  shows "window (if records_sample ev then Suc n else n) (handle py_str m ev)"
proof (cases ev)
  case (Timeout env)
  with window_update_stats [OF assms, of env] show ?thesis by simp
next
  case (End_process_clicked os_kill rows yes ts)
  have "window n (snd (snd (kill_selected_process py_str os_kill rows yes ts m)))"
    using assms
    by (rule window_frame [rotated 3])
       (simp_all add: kill_selected_process_def Let_def split: list.splits option.splits prod.splits)
  with End_process_clicked show ?thesis by simp
next
  case (Apply_clicked mode out ts)
  have "window n (snd (apply_power_mode py_str mode out ts m))"
    using assms
    by (rule window_frame [rotated 3]) (simp_all add: apply_power_mode_def split: prod.splits)
  with Apply_clicked show ?thesis by simp
next
  case (Clear_ram_clicked out ts)
  have "window n (snd (clear_ram_cache_action py_str out ts m))"
    using assms
    by (rule window_frame [rotated 3]) (simp_all add: clear_ram_cache_action_def split: prod.splits)
  with Clear_ram_clicked show ?thesis by simp
next
  case (Clear_storage_clicked out fs ts)
  have "window n (snd (clear_storage_cache_action py_str out fs ts m))"
    using assms
    by (rule window_frame [rotated 3])
       (simp_all add: clear_storage_cache_action_def split: prod.splits)
  with Clear_storage_clicked show ?thesis by simp
qed

lemma window_run:
  "window n m \<Longrightarrow> window (n + samples events) (run py_str events m)"
proof (induction events arbitrary: n m)
  case Nil
  then show ?case by (simp add: run_def samples_def)
next
  case (Cons ev events)
  from window_handle [OF Cons.prems, of ev py_str]
  have "window ((if records_sample ev then Suc n else n) + samples events)
          (run py_str events (handle py_str m ev))"
    by (rule Cons.IH)
  then show ?case by (cases "records_sample ev") (simp_all add: run_def samples_def)
qed

lemma window_setup_ui: "window 0 (setup_ui baseline)"
  by (simp add: window_def setup_ui_def ticks_of_def QLineSeries_def)

lemma window_count:
  "window n m \<Longrightarrow> count (cpu_series m) = min n 60 \<and> count (ram_series m) = min n 60"
proof -
  assume w: "window n m"
  have "length (ticks_of s) = count s" for s by (simp add: ticks_of_def count_def)
  moreover have "length [max 0 (int n - 60) .. int n - 1] = min n 60" by simp
  ultimately show ?thesis using w by (metis window_def)
qed

subsection \<open>The rolling history buffers\<close>

text \<open>
  C1. From the constructed window, whatever events are handled: once \<open>T + 1\<close> samples
  have been recorded, the CPU series and the RAM series each hold \<open>min (T + 1) 60\<close>
  points; so between any two events neither holds more than 60.
\<close>

theorem history_length:
  "count (cpu_series (run py_str events (setup_ui baseline))) = min (samples events) 60
   \<and> count (ram_series (run py_str events (setup_ui baseline))) = min (samples events) 60
   \<and> count (cpu_series (run py_str events (setup_ui baseline))) \<le> 60
   \<and> count (ram_series (run py_str events (setup_ui baseline))) \<le> 60"
  using window_count [OF window_run [OF window_setup_ui, of events py_str baseline]]
  by simp

lemma read_quiet: "records_sample (Timeout quiet_host)"
  by (simp add: quiet_host_def read_metrics_def get_battery_info_def get_disk_info_def
      get_network_info_def Let_def)

lemma samples_replicate:
  "records_sample ev \<Longrightarrow> samples (replicate n ev) = n"
  by (simp add: samples_def)

text \<open>
  C2. Eviction removes the head: once more than 60 samples have been recorded, the
  oldest point of each series carries the tick index of the newest minus 59, the newest
  being the number of samples minus one; after 61 samples each series holds exactly the
  ticks 1 to 60, tick 0 having been evicted.
\<close>

theorem eviction_at_head:
  assumes "60 < samples events"
  shows "fst (hd (points (cpu_series (run py_str events (setup_ui baseline)))))
           = fst (last (points (cpu_series (run py_str events (setup_ui baseline))))) - 59
       \<and> fst (hd (points (ram_series (run py_str events (setup_ui baseline)))))
           = fst (last (points (ram_series (run py_str events (setup_ui baseline))))) - 59
       \<and> fst (last (points (cpu_series (run py_str events (setup_ui baseline)))))
           = int (samples events) - 1
       \<and> fst (last (points (ram_series (run py_str events (setup_ui baseline)))))
           = int (samples events) - 1
       \<and> (samples events = 61 \<longrightarrow>
            ticks_of (cpu_series (run py_str events (setup_ui baseline))) = [1 .. 60]
          \<and> ticks_of (ram_series (run py_str events (setup_ui baseline))) = [1 .. 60])"
proof -
  let ?m = "run py_str events (setup_ui baseline)"
  let ?n = "int (samples events)"
  have w: "window (samples events) ?m"
    using window_run [OF window_setup_ui, of events py_str baseline] by simp
  have range: "[max 0 (?n - 60) .. ?n - 1] = [?n - 60 .. ?n - 1]"
    using assms by simp
  have ne: "[?n - 60 .. ?n - 1] \<noteq> []" using assms by simp
  have h: "hd [?n - 60 .. ?n - 1] = ?n - 60"
    using assms by (simp add: upto_rec1 [of "?n - 60" "?n - 1"])
  have l: "last [?n - 60 .. ?n - 1] = ?n - 1"
    using assms by (simp add: upto_rec2 [of "?n - 60" "?n - 1"])
  have ends: "fst (hd (points s)) = ?n - 60 \<and> fst (last (points s)) = ?n - 1"
    if "ticks_of s = [?n - 60 .. ?n - 1]" for s
  proof -
    from that ne have "points s \<noteq> []" by (auto simp: ticks_of_def)
    then have "hd (ticks_of s) = fst (hd (points s))" "last (ticks_of s) = fst (last (points s))"
      by (simp_all add: ticks_of_def hd_map last_map)
    with that h l show ?thesis by simp
  qed
  from w range have c: "ticks_of (cpu_series ?m) = [?n - 60 .. ?n - 1]"
    and r: "ticks_of (ram_series ?m) = [?n - 60 .. ?n - 1]"
    by (simp_all add: window_def)
  from ends [OF c] ends [OF r] c r show ?thesis by auto
qed

theorem eviction_at_head_witness:
  "60 < samples (replicate 61 (Timeout quiet_host))
   \<and> ticks_of (cpu_series (run (\<lambda>e. ''error'') (replicate 61 (Timeout quiet_host))
                  (setup_ui \<lparr>ni_sent = 1, ni_recv = 2\<rparr>))) = [1 .. 60]
   \<and> fst (hd (points (cpu_series (run (\<lambda>e. ''error'') (replicate 61 (Timeout quiet_host))
                  (setup_ui \<lparr>ni_sent = 1, ni_recv = 2\<rparr>))))) = 1"
proof -
  have n: "samples (replicate 61 (Timeout quiet_host)) = 61"
    by (rule samples_replicate [OF read_quiet])
  then have h: "60 < samples (replicate 61 (Timeout quiet_host))" by simp
  from eviction_at_head [OF h, of "\<lambda>e. ''error''" "\<lparr>ni_sent = 1, ni_recv = 2\<rparr>"] n
  show ?thesis by simp
qed

subsection \<open>Colour bands\<close>

lemma chunk_color_update_color:
  "chunk_color (update_color v b) = band_color (spec_band v)"
  by (simp add: update_color_def spec_band_def)

text \<open>
  C3. The colour of a bar's chunk is a function of the value alone, the one the
  specification's bands describe (below 60 nominal, from 60 and below 85 elevated, from
  85 critical), and it is the same function for the CPU, RAM, disk and battery bars; at
  59.9, 60.0, 84.9 and 85.0 the bands are nominal, elevated, elevated and critical.
\<close>

theorem color_band:
  "chunk_color (update_color v b) = band_color (spec_band v)
   \<and> bar_value (update_color v b) = bar_value b
   \<and> chunk_color (cpu_bar (update_cpu cpu temp self)) = band_color (spec_band cpu)
   \<and> chunk_color (ram_bar (update_ram ram_info self))
        = band_color (spec_band (vm_percent ram_info))
   \<and> chunk_color (disk_bar (update_disk disk_info self))
        = band_color (spec_band (di_percent disk_info))
   \<and> chunk_color (battery_bar (update_battery (Some info) self))
        = band_color (spec_band (battery_monitored info))
   \<and> spec_band 59.9 = Nominal \<and> chunk_color (update_color 59.9 b) = ''#4CAF50''
   \<and> spec_band 60.0 = Elevated \<and> chunk_color (update_color 60.0 b) = ''#FF9800''
   \<and> spec_band 84.9 = Elevated \<and> chunk_color (update_color 84.9 b) = ''#FF9800''
   \<and> spec_band 85.0 = Critical \<and> chunk_color (update_color 85.0 b) = ''#F44336''
   \<and> inj band_color"
proof -
  have "inj band_color"
  proof (rule injI)
    fix a b assume "band_color a = band_color b"
    then show "a = b" by (cases a; cases b) simp_all
  qed
  moreover have "bar_value (update_color v b) = bar_value b"
    by (simp add: update_color_def)
  moreover have "spec_band 59.9 = Nominal" "spec_band 60.0 = Elevated"
    "spec_band 84.9 = Elevated" "spec_band 85.0 = Critical"
    by (simp_all add: spec_band_def)
  moreover have "chunk_color (update_color 59.9 b) = ''#4CAF50''"
    "chunk_color (update_color 60.0 b) = ''#FF9800''"
    "chunk_color (update_color 84.9 b) = ''#FF9800''"
    "chunk_color (update_color 85.0 b) = ''#F44336''"
    by (simp_all add: update_color_def)
  moreover have "chunk_color (cpu_bar (update_cpu cpu temp self)) = band_color (spec_band cpu)"
    by (simp add: update_cpu_def chunk_color_update_color)
  moreover have "chunk_color (ram_bar (update_ram ram_info self))
        = band_color (spec_band (vm_percent ram_info))"
    by (simp add: update_ram_def Let_def chunk_color_update_color)
  moreover have "chunk_color (disk_bar (update_disk disk_info self))
        = band_color (spec_band (di_percent disk_info))"
    by (simp add: update_disk_def chunk_color_update_color)
  moreover have "chunk_color (battery_bar (update_battery (Some info) self))
        = band_color (spec_band (battery_monitored info))"
    by (simp add: update_battery_def chunk_color_update_color)
  ultimately show ?thesis
    using chunk_color_update_color [of v b] by simp
qed

text \<open>
  C7, as stated, fails: at 30 percent and not plugged in the monitored value is 70, and
  70 is coloured as the elevated band, not the critical one.
\<close>

theorem battery_band_counterexample:
  "battery_monitored \<lparr>bi_status = ''Discharging'', bi_percent = 30,
                      bi_time = ''1h 30m'', bi_plugged = Some False\<rparr> = 70
   \<and> chunk_color (battery_bar (update_battery
        (Some \<lparr>bi_status = ''Discharging'', bi_percent = 30,
               bi_time = ''1h 30m'', bi_plugged = Some False\<rparr>)
        (setup_ui \<lparr>ni_sent = 1, ni_recv = 2\<rparr>))) = ''#FF9800''
   \<and> chunk_color (battery_bar (update_battery
        (Some \<lparr>bi_status = ''Discharging'', bi_percent = 30,
               bi_time = ''1h 30m'', bi_plugged = Some False\<rparr>)
        (setup_ui \<lparr>ni_sent = 1, ni_recv = 2\<rparr>))) \<noteq> band_color Critical"
  by (simp add: battery_monitored_def truthy_def update_battery_def update_color_def)

text \<open>
  C7, amended. The value the battery bar is coloured by is \<open>100 - percent\<close> when the
  battery is not plugged in and 0 when it is; at 30 percent it is 70 when not plugged
  in, in the elevated band, and 0 when plugged in, in the nominal band.
\<close>

theorem battery_urgency:
  "battery_monitored info = (if truthy (bi_plugged info) then 0 else 100 - bi_percent info)
   \<and> chunk_color (battery_bar (update_battery (Some info) self))
        = band_color (spec_band (battery_monitored info))
   \<and> battery_monitored \<lparr>bi_status = ''Discharging'', bi_percent = 30,
                         bi_time = ''1h 30m'', bi_plugged = Some False\<rparr> = 70
   \<and> spec_band 70 = Elevated
   \<and> battery_monitored \<lparr>bi_status = ''Charging'', bi_percent = 30,
                         bi_time = ''Plugged In'', bi_plugged = Some True\<rparr> = 0
   \<and> spec_band 0 = Nominal"
  by (simp add: battery_monitored_def truthy_def update_battery_def spec_band_def
        chunk_color_update_color)

subsection \<open>Failures of the metric sources\<close>

lemmas parse_defs = py_int_def strip_def isspace_def py_unsigned_def isdigit_def digit_value_def

lemma get_cpu_temp_unreadable: "unreadable file \<Longrightarrow> get_cpu_temp file = 0"
  by (auto simp: unreadable_def get_cpu_temp_def split: sum.splits)

lemma read_metrics_temp:
  "get_cpu_temp file = get_cpu_temp file'
   \<Longrightarrow> read_metrics (env\<lparr>thermal_zone0 := file\<rparr>) = read_metrics (env\<lparr>thermal_zone0 := file'\<rparr>)"
  by (simp add: read_metrics_def Let_def split: sum.splits)

lemma update_stats_temp:
  "get_cpu_temp file = get_cpu_temp file'
   \<Longrightarrow> update_stats (env\<lparr>thermal_zone0 := file\<rparr>) self
       = update_stats (env\<lparr>thermal_zone0 := file'\<rparr>) self"
  using read_metrics_temp [of "file" file' env]
  by (simp add: update_stats_def Let_def split: sum.splits)

lemma read_metrics_answer:
  "others_answer env \<Longrightarrow> \<exists>r. read_metrics env = Inr r \<and> rd_temp r = get_cpu_temp (thermal_zone0 env)
      \<and> Inr (rd_cpu r) = cpu_percent env"
  by (auto simp: others_answer_def read_metrics_def get_battery_info_def get_disk_info_def
        get_network_info_def Let_def split: sum.splits option.splits)

lemmas update_defs = update_stats_def Let_def get_top_processes_def update_process_table_def
  update_charts_def update_uptime_def update_battery_def update_network_def
  update_disk_def update_ram_def update_cpu_def

lemma others_answerE:
  assumes "others_answer env"
  obtains cpu ram bat disk net boot ps where
    "cpu_percent env = Inr cpu" "virtual_memory env = Inr ram" "sensors_battery env = Inr bat"
    "disk_usage env = Inr disk" "net_io_counters env = Inr net" "boot_time env = Inr boot"
    "process_iter env = Inr ps"
proof -
  have *: "\<not> isl v \<Longrightarrow> \<exists>a. v = Inr a" for v :: "exn + 'a" by (cases v) simp_all
  from assms show ?thesis
    unfolding others_answer_def using that by (metis *)
qed

lemma update_stats_answer:
  assumes "others_answer env"
  shows "fst (update_stats env self) = None
       \<and> cpu_label (snd (update_stats env self)) = Usage (projr (cpu_percent env))
       \<and> cpu_temp_label (snd (update_stats env self))
           = Temperature (get_cpu_temp (thermal_zone0 env))
       \<and> ram_label (snd (update_stats env self))
           = Usage (vm_percent (projr (virtual_memory env)))
       \<and> disk_bar (snd (update_stats env self))
           = update_color (du_percent (projr (disk_usage env)))
               (setValue (int_of_float (du_percent (projr (disk_usage env)))) (disk_bar self))
       \<and> network_sent_label (snd (update_stats env self))
           = Sent_MB (real_of_int (bytes_sent (projr (net_io_counters env))) / 1024 ^ 2
                        - ni_sent (network_baseline self))
       \<and> battery_label (snd (update_stats env self))
           = (case projr (sensors_battery env) of
                None \<Rightarrow> No_battery_detected
              | Some battery \<Rightarrow>
                  Battery_status (if truthy (power_plugged battery) then ''Charging''
                                  else ''Discharging'') (bat_percent battery))
       \<and> process_table (snd (update_stats env self))
           = map row_of (take 10 (sorted_reverse pi_cpu_percent
                                    (collect_info (projr (process_iter env)))))"
proof -
  from assms obtain cpu ram bat disk net boot ps where
    "cpu_percent env = Inr cpu" "virtual_memory env = Inr ram" "sensors_battery env = Inr bat"
    "disk_usage env = Inr disk" "net_io_counters env = Inr net" "boot_time env = Inr boot"
    "process_iter env = Inr ps"
    by (rule others_answerE)
  then show ?thesis
    by (cases bat)
       (simp_all add: update_defs read_metrics_def get_battery_info_def get_disk_info_def
          get_network_info_def)
qed





lemma others_answer_thermal [simp]:
  "others_answer (env\<lparr>thermal_zone0 := file\<rparr>) = others_answer env"
  by (simp add: others_answer_def)

lemma others_answer_quiet_host: "others_answer quiet_host"
  by (simp add: others_answer_def quiet_host_def)

lemma collect_info_filter:
  "collect_info procs = map projr (filter (\<lambda>p. \<not> isl p) procs)"
  by (induction procs rule: collect_info.induct) simp_all

text \<open>
  C8. When the thermal-zone file is missing, unreadable or not an integer,
  \<open>get_cpu_temp\<close> returns 0.0; no exception can leave it, for it returns a number on
  every input. The tick is then the tick of a sensor that reads 0, and when the other
  sources answer it completes without an exception and leaves every field of the
  window filled from them: the labels and bars of CPU, memory, disk, network and
  battery, the uptime, one more point in each series, the process table; the log and
  the network baseline are as before.
\<close>

theorem cpu_temp_fallback:
  assumes "unreadable file"
  shows "get_cpu_temp file = 0
       \<and> update_stats (env\<lparr>thermal_zone0 := file\<rparr>) self
           = update_stats (env\<lparr>thermal_zone0 := Inr ''0''\<rparr>) self
       \<and> (cpu_percent env = Inr cpu \<and> virtual_memory env = Inr ram_info
            \<and> sensors_battery env = Inr battery \<and> disk_usage env = Inr usage
            \<and> net_io_counters env = Inr net \<and> boot_time env = Inr boot
            \<and> process_iter env = Inr procs \<longrightarrow>
          update_stats (env\<lparr>thermal_zone0 := file\<rparr>) self =
            (None,
             \<lparr>cpu_label = Usage cpu,
              cpu_temp_label = Temperature 0,
              cpu_bar =
                \<lparr>bar_value = (if 0 \<le> int_of_float cpu \<and> int_of_float cpu \<le> 100
                               then int_of_float cpu else bar_value (cpu_bar self)),
                 chunk_color = band_color (spec_band cpu)\<rparr>,
              ram_label = Usage (vm_percent ram_info),
              ram_details = GB_of (real_of_int (vm_used ram_info) / 1024 ^ 3)
                                  (real_of_int (vm_total ram_info) / 1024 ^ 3),
              ram_bar =
                \<lparr>bar_value = (if 0 \<le> int_of_float (vm_percent ram_info)
                                  \<and> int_of_float (vm_percent ram_info) \<le> 100
                               then int_of_float (vm_percent ram_info)
                               else bar_value (ram_bar self)),
                 chunk_color = band_color (spec_band (vm_percent ram_info))\<rparr>,
              disk_label = GB_of (real_of_int (du_used usage) / 1024 ^ 3)
                                 (real_of_int (du_total usage) / 1024 ^ 3),
              disk_bar =
                \<lparr>bar_value = (if 0 \<le> int_of_float (du_percent usage)
                                  \<and> int_of_float (du_percent usage) \<le> 100
                               then int_of_float (du_percent usage)
                               else bar_value (disk_bar self)),
                 chunk_color = band_color (spec_band (du_percent usage))\<rparr>,
              network_sent_label =
                Sent_MB (real_of_int (bytes_sent net) / 1024 ^ 2
                           - ni_sent (network_baseline self)),
              network_recv_label =
                Received_MB (real_of_int (bytes_recv net) / 1024 ^ 2
                               - ni_recv (network_baseline self)),
              battery_label =
                (case battery of
                   None \<Rightarrow> No_battery_detected
                 | Some b \<Rightarrow>
                     Battery_status
                       (if power_plugged b = Some True then ''Charging'' else ''Discharging'')
                       (bat_percent b)),
              battery_bar =
                (case battery of
                   None \<Rightarrow> \<lparr>bar_value = 0, chunk_color = chunk_color (battery_bar self)\<rparr>
                 | Some b \<Rightarrow>
                     \<lparr>bar_value = (if 0 \<le> int_of_float (bat_percent b)
                                       \<and> int_of_float (bat_percent b) \<le> 100
                                    then int_of_float (bat_percent b)
                                    else bar_value (battery_bar self)),
                      chunk_color =
                        band_color (spec_band (if power_plugged b = Some True then 0
                                               else 100 - bat_percent b))\<rparr>),
              uptime_label =
                System_uptime (int_of_float (now_timestamp env - boot) div 3600)
                              (int_of_float (now_timestamp env - boot) mod 3600 div 60),
              cpu_series =
                \<lparr>points = (if 60 < length (points (cpu_series self)) + 1
                            then drop 1 (points (cpu_series self) @ [(self_x self, cpu)])
                            else points (cpu_series self) @ [(self_x self, cpu)]),
                 axis_x = (max 0 (self_x self + 1 - 60), self_x self + 1)\<rparr>,
              ram_series =
                \<lparr>points = (if 60 < length (points (ram_series self)) + 1
                            then drop 1 (points (ram_series self)
                                           @ [(self_x self, vm_percent ram_info)])
                            else points (ram_series self)
                                   @ [(self_x self, vm_percent ram_info)]),
                 axis_x = (max 0 (self_x self + 1 - 60), self_x self + 1)\<rparr>,
              process_table =
                map (\<lambda>p. \<lparr>cell_pid = str_int (pi_pid p), cell_name = pi_name p,
                           cell_cpu = pi_cpu_percent p, cell_memory = pi_memory_percent p\<rparr>)
                  (take 10 (rev (sort_key pi_cpu_percent
                                   (rev (map projr (filter (\<lambda>p. \<not> isl p) procs)))))),
              log_output = log_output self,
              self_x = self_x self + 1,
              network_baseline = network_baseline self\<rparr>))"
proof -
  have zero: "get_cpu_temp file = 0"
    using assms by (rule get_cpu_temp_unreadable)
  have "get_cpu_temp (Inr ''0'') = 0"
    by (simp add: get_cpu_temp_def parse_defs)
  with zero have same: "get_cpu_temp file = get_cpu_temp (Inr ''0'')" by simp
  have tick: "update_stats (env\<lparr>thermal_zone0 := file\<rparr>) self
                = update_stats (env\<lparr>thermal_zone0 := Inr ''0''\<rparr>) self"
    using same by (rule update_stats_temp)
  have bars: "update_color v (setValue i b)
                = \<lparr>bar_value = (if 0 \<le> i \<and> i \<le> 100 then i else bar_value b),
                   chunk_color = band_color (spec_band v)\<rparr>" for v i b
    by (cases b) (simp add: update_color_def setValue_def spec_band_def)
  have bar0: "setValue 0 b = \<lparr>bar_value = 0, chunk_color = chunk_color b\<rparr>" for b
    by (cases b) (simp add: setValue_def)
  have charts: "(if 60 < count (append_point px py s) then remove_at 0 (append_point px py s)
                 else append_point px py s)
                = s\<lparr>points := (if 60 < length (points s) + 1
                                then drop 1 (points s @ [(px, py)])
                                else points s @ [(px, py)])\<rparr>" for px py s
    by (simp add: count_def append_point_def remove_at_def)
  have full: "update_stats (env\<lparr>thermal_zone0 := file\<rparr>) self = (None, m)"
    if src: "cpu_percent env = Inr cpu" "virtual_memory env = Inr ram_info"
      "sensors_battery env = Inr battery" "disk_usage env = Inr usage"
      "net_io_counters env = Inr net" "boot_time env = Inr boot"
      "process_iter env = Inr procs"
    and m: "m = update_process_table
                  (take 10 (sorted_reverse pi_cpu_percent (collect_info procs)))
                  (update_charts cpu (vm_percent ram_info)
                    (update_uptime (now_timestamp env) boot
                      (update_battery (projr (get_battery_info (Inr battery)))
                        (update_network (projr (get_network_info (Inr net)))
                          (update_disk (projr (get_disk_info (Inr usage)))
                            (update_ram ram_info (update_cpu cpu 0 self)))))))" for m
    using src zero unfolding m
    by (cases battery)
       (simp_all add: update_stats_def read_metrics_def get_battery_info_def get_disk_info_def
          get_network_info_def get_top_processes_def Let_def)
  show ?thesis
    apply (intro conjI impI zero tick)
    apply (elim conjE)
    apply (rule trans [OF full [OF _ _ _ _ _ _ _ refl]], assumption+)
    apply (cases self; cases battery)
     apply (simp_all add: update_process_table_def update_charts_def update_uptime_def
        update_battery_def update_network_def update_disk_def update_ram_def update_cpu_def
        get_battery_info_def get_disk_info_def get_network_info_def battery_monitored_def
        truthy_def Let_def bars bar0 charts setRange_def sorted_reverse_def row_of_def
        collect_info_filter comp_def)
    done
qed


theorem cpu_temp_fallback_witness:
  "unreadable (Inl (OtherException ''FileNotFoundError''))
   \<and> get_cpu_temp (Inl (OtherException ''FileNotFoundError'')) = 0
   \<and> update_stats (quiet_host\<lparr>thermal_zone0 := Inl (OtherException ''FileNotFoundError'')\<rparr>)
        (setup_ui \<lparr>ni_sent = 1, ni_recv = 2\<rparr>)
       = (None,
          \<lparr>cpu_label = Usage 12.5,
           cpu_temp_label = Temperature 0,
           cpu_bar = \<lparr>bar_value = 12, chunk_color = ''#4CAF50''\<rparr>,
           ram_label = Usage 50,
           ram_details = GB_of 4 8,
           ram_bar = \<lparr>bar_value = 50, chunk_color = ''#4CAF50''\<rparr>,
           disk_label = GB_of 50 100,
           disk_bar = \<lparr>bar_value = 50, chunk_color = ''#4CAF50''\<rparr>,
           network_sent_label = Sent_MB 2,
           network_recv_label = Received_MB 3,
           battery_label = Battery_status ''Discharging'' 30,
           battery_bar = \<lparr>bar_value = 30, chunk_color = ''#FF9800''\<rparr>,
           uptime_label = System_uptime 2 46,
           cpu_series = \<lparr>points = [(0, 12.5)], axis_x = (0, 1)\<rparr>,
           ram_series = \<lparr>points = [(0, 50)], axis_x = (0, 1)\<rparr>,
           process_table = [\<lparr>cell_pid = ''4242'', cell_name = ''python3'',
                             cell_cpu = 7.5, cell_memory = 1.5\<rparr>],
           log_output = [],
           self_x = 1,
           network_baseline = \<lparr>ni_sent = 1, ni_recv = 2\<rparr>\<rparr>)
   \<and> unreadable (Inr ''n/a'')
   \<and> get_cpu_temp (Inr ''n/a'') = 0"
proof -
  let ?missing = "Inl (OtherException ''FileNotFoundError'') :: exn + string"
  let ?m = "setup_ui \<lparr>ni_sent = 1, ni_recv = 2\<rparr>"
  have a: "unreadable ?missing"
    by (simp add: unreadable_def)
  have b: "unreadable (Inr ''n/a'')"
    by (simp add: unreadable_def parse_defs)
  have src: "cpu_percent quiet_host = Inr 12.5
      \<and> virtual_memory quiet_host
          = Inr \<lparr>vm_total = 8589934592, vm_used = 4294967296, vm_percent = 50\<rparr>
      \<and> sensors_battery quiet_host
          = Inr (Some \<lparr>bat_percent = 30, secsleft = 5400, power_plugged = Some False\<rparr>)
      \<and> disk_usage quiet_host
          = Inr \<lparr>du_total = 107374182400, du_used = 53687091200,
                 du_free = 53687091200, du_percent = 50\<rparr>
      \<and> net_io_counters quiet_host = Inr \<lparr>bytes_sent = 3145728, bytes_recv = 5242880\<rparr>
      \<and> boot_time quiet_host = Inr 990000
      \<and> process_iter quiet_host
          = Inr [Inr \<lparr>pi_pid = 4242, pi_name = ''python3'',
                      pi_cpu_percent = 7.5, pi_memory_percent = 1.5\<rparr>]"
    by (simp add: quiet_host_def)
  have now: "now_timestamp quiet_host = 1000000" by (simp add: quiet_host_def)
  have pid: "str_int 4242 = ''4242''" by (simp add: str_int_def str_nat.simps)
  note eq = cpu_temp_fallback [OF a, where env = quiet_host and self = ?m and cpu = "12.5"
      and ram_info = "\<lparr>vm_total = 8589934592, vm_used = 4294967296, vm_percent = 50\<rparr>"
      and battery = "Some \<lparr>bat_percent = 30, secsleft = 5400, power_plugged = Some False\<rparr>"
      and usage = "\<lparr>du_total = 107374182400, du_used = 53687091200,
                     du_free = 53687091200, du_percent = 50\<rparr>"
      and net = "\<lparr>bytes_sent = 3145728, bytes_recv = 5242880\<rparr>"
      and boot = 990000
      and procs = "[Inr \<lparr>pi_pid = 4242, pi_name = ''python3'',
                          pi_cpu_percent = 7.5, pi_memory_percent = 1.5\<rparr>]",
      THEN conjunct2, THEN conjunct2, THEN mp, OF src]
  have "update_stats (quiet_host\<lparr>thermal_zone0 := ?missing\<rparr>) ?m
       = (None,
          \<lparr>cpu_label = Usage 12.5,
           cpu_temp_label = Temperature 0,
           cpu_bar = \<lparr>bar_value = 12, chunk_color = ''#4CAF50''\<rparr>,
           ram_label = Usage 50,
           ram_details = GB_of 4 8,
           ram_bar = \<lparr>bar_value = 50, chunk_color = ''#4CAF50''\<rparr>,
           disk_label = GB_of 50 100,
           disk_bar = \<lparr>bar_value = 50, chunk_color = ''#4CAF50''\<rparr>,
           network_sent_label = Sent_MB 2,
           network_recv_label = Received_MB 3,
           battery_label = Battery_status ''Discharging'' 30,
           battery_bar = \<lparr>bar_value = 30, chunk_color = ''#FF9800''\<rparr>,
           uptime_label = System_uptime 2 46,
           cpu_series = \<lparr>points = [(0, 12.5)], axis_x = (0, 1)\<rparr>,
           ram_series = \<lparr>points = [(0, 50)], axis_x = (0, 1)\<rparr>,
           process_table = [\<lparr>cell_pid = ''4242'', cell_name = ''python3'',
                             cell_cpu = 7.5, cell_memory = 1.5\<rparr>],
           log_output = [],
           self_x = 1,
           network_baseline = \<lparr>ni_sent = 1, ni_recv = 2\<rparr>\<rparr>)"
    unfolding eq
    by (simp add: now pid setup_ui_def StyledProgressBar_def QLineSeries_def
        int_of_float_def spec_band_def)
  with cpu_temp_fallback [OF a, of quiet_host ?m] cpu_temp_fallback [OF b, of quiet_host ?m] a b
  show ?thesis by blast
qed




subsection \<open>Reading back a rendered integer\<close>

lemma digit_char:
  assumes "k < 10"
  shows "isdigit (''0123456789'' ! k)" "digit_value (''0123456789'' ! k) = k"
    "\<not> isspace (''0123456789'' ! k)" "''0123456789'' ! k \<noteq> CHR ''-''"
    "''0123456789'' ! k \<noteq> CHR ''+''"
proof -
  from assms consider "k = 0" | "k = 1" | "k = 2" | "k = 3" | "k = 4" | "k = 5" | "k = 6"
    | "k = 7" | "k = 8" | "k = 9" by atomize_elim arith
  then have "isdigit (''0123456789'' ! k) \<and> digit_value (''0123456789'' ! k) = k
    \<and> \<not> isspace (''0123456789'' ! k) \<and> ''0123456789'' ! k \<noteq> CHR ''-''
    \<and> ''0123456789'' ! k \<noteq> CHR ''+''"
    by cases (simp_all add: isdigit_def digit_value_def isspace_def)
  then show "isdigit (''0123456789'' ! k)" "digit_value (''0123456789'' ! k) = k"
    "\<not> isspace (''0123456789'' ! k)" "''0123456789'' ! k \<noteq> CHR ''-''"
    "''0123456789'' ! k \<noteq> CHR ''+''" by simp_all
qed

lemma py_digits_snoc:
  "isdigit d \<Longrightarrow> \<forall>c\<in>set ds. isdigit c \<Longrightarrow> py_digits acc (ds @ [d])
     = map_option (\<lambda>v. 10 * v + digit_value d) (py_digits acc ds)"
  by (induction acc ds rule: py_digits.induct) auto

lemma py_unsigned_snoc:
  "isdigit d \<Longrightarrow> \<forall>c\<in>set ds. isdigit c \<Longrightarrow> ds \<noteq> [] \<Longrightarrow> py_unsigned (ds @ [d])
     = map_option (\<lambda>v. 10 * v + digit_value d) (py_unsigned ds)"
  by (cases ds) (simp_all add: py_unsigned_def py_digits_snoc)

lemma str_nat_nonempty: "str_nat n \<noteq> []"
  by (subst str_nat.simps) simp

lemma str_nat_digits: "\<forall>c\<in>set (str_nat n). isdigit c"
proof (induction n rule: str_nat.induct)
  case (1 n)
  have "n mod 10 < 10" by simp
  with 1 show ?case
    by (subst str_nat.simps) (simp add: digit_char)
qed

lemma py_unsigned_str_nat: "py_unsigned (str_nat n) = Some n"
proof (induction n rule: str_nat.induct)
  case (1 n)
  show ?case
  proof (cases "n < 10")
    case True
    then show ?thesis
      by (subst str_nat.simps) (simp add: py_unsigned_def digit_char)
  next
    case False
    have "n mod 10 < 10" by simp
    with False 1 show ?thesis
      by (subst str_nat.simps)
         (simp add: py_unsigned_snoc str_nat_nonempty str_nat_digits digit_char)
  qed
qed

lemma str_nat_ends:
  "\<not> isspace (hd (str_nat n))" "\<not> isspace (last (str_nat n))"
  "hd (str_nat n) \<noteq> CHR ''-''" "hd (str_nat n) \<noteq> CHR ''+''"
proof -
  have "\<not> isspace (hd (str_nat n)) \<and> hd (str_nat n) \<noteq> CHR ''-'' \<and> hd (str_nat n) \<noteq> CHR ''+''"
  proof (induction n rule: str_nat.induct)
    case (1 n)
    show ?case
    proof (cases "n < 10")
      case True
      then show ?thesis by (subst (1 2 3) str_nat.simps) (simp add: digit_char)
    next
      case False
      with 1 show ?thesis
        by (subst (1 2 3) str_nat.simps) (simp add: str_nat_nonempty)
    qed
  qed
  then show "\<not> isspace (hd (str_nat n))" "hd (str_nat n) \<noteq> CHR ''-''"
    "hd (str_nat n) \<noteq> CHR ''+''" by simp_all
  have "n mod 10 < 10" by simp
  then show "\<not> isspace (last (str_nat n))"
    by (subst str_nat.simps) (simp add: digit_char)
qed

lemma strip_id:
  assumes "s \<noteq> []" "\<not> isspace (hd s)" "\<not> isspace (last s)"
  shows "strip s = s"
proof -
  from assms have "dropWhile isspace s = s" by (cases s) simp_all
  moreover from assms have "dropWhile isspace (rev s) = rev s"
    by (cases "rev s") (simp_all add: hd_rev)
  ultimately show ?thesis by (simp add: strip_def)
qed

lemma py_int_str_int: "py_int (str_int i) = Some i"
proof (cases "i < 0")
  case True
  let ?s = "CHR ''-'' # str_nat (nat (- i))"
  have "\<not> isspace CHR ''-''" by (simp add: isspace_def)
  then have "strip ?s = ?s"
    by (intro strip_id) (simp_all add: str_nat_nonempty str_nat_ends)
  with True show ?thesis
    by (simp add: py_int_def str_int_def py_unsigned_str_nat)
next
  case False
  let ?s = "str_nat (nat i)"
  have s: "strip ?s = ?s"
    by (rule strip_id) (simp_all add: str_nat_nonempty str_nat_ends)
  obtain c cs where c: "?s = c # cs" using str_nat_nonempty [of "nat i"] by (cases ?s) auto
  with str_nat_ends(3,4) [of "nat i"] have "c \<noteq> CHR ''-''" "c \<noteq> CHR ''+''" by simp_all
  with False s c py_unsigned_str_nat [of "nat i"] show ?thesis
    by (simp add: py_int_def str_int_def)
qed


lemma log_output_update_stats:
  "log_output (snd (update_stats env self)) = log_output self"
  by (simp add: update_defs split: sum.splits option.splits)

lemma str_int_4242: "str_int 4242 = ''4242''"
  by (simp add: str_int_def str_nat.simps)

subsection \<open>The privileged actions\<close>

text \<open>
  C9. When the operating system answers \<^verbatim>\<open>os.kill\<close> that there is no such process,
  \<open>kill_process\<close> returns \<^verbatim>\<open>(False, "Process <pid> not found")\<close>; and when the row
  selected in the table shows that pid and the user confirms, the handler raises
  nothing, warns with that message and appends it, with its time, to the action log.
\<close>

theorem kill_process_not_found:
  assumes "os_kill pid = Some ProcessLookupError"
  shows "kill_process py_str os_kill pid = (False, ''Process '' @ str_int pid @ '' not found'')
       \<and> (row < length (process_table self)
            \<and> cell_pid (process_table self ! row) = str_int pid \<longrightarrow>
          kill_selected_process py_str os_kill (row # rows) True timestamp self
            = (None,
               [Confirm_termination (cell_name (process_table self ! row)) pid,
                Warning ''Error'' (''Process '' @ str_int pid @ '' not found'')],
               self\<lparr>log_output := log_output self
                      @ [''['' @ timestamp @ ''] Process '' @ str_int pid @ '' not found'']\<rparr>))"
proof -
  have k: "kill_process py_str os_kill pid
             = (False, ''Process '' @ str_int pid @ '' not found'')"
    using assms by (simp add: kill_process_def)
  then show ?thesis
    by (simp add: kill_selected_process_def py_int_str_int feedback_def log_message_def)
qed

theorem kill_process_not_found_witness:
  "example_kill 4242 = Some ProcessLookupError
   \<and> kill_process example_str example_kill 4242 = (False, ''Process 4242 not found'')
   \<and> cell_pid (process_table (snd (update_stats quiet_host (setup_ui \<lparr>ni_sent = 1, ni_recv = 2\<rparr>)))
               ! 0) = ''4242''
   \<and> log_output (snd (snd (kill_selected_process example_str example_kill [0] True ''12:00:00''
        (snd (update_stats quiet_host (setup_ui \<lparr>ni_sent = 1, ni_recv = 2\<rparr>))))))
       = [''[12:00:00] Process 4242 not found'']"
proof -
  let ?m = "snd (update_stats quiet_host (setup_ui \<lparr>ni_sent = 1, ni_recv = 2\<rparr>))"
  have k: "example_kill 4242 = Some ProcessLookupError" by (simp add: example_kill_def)
  have t: "process_table ?m = [\<lparr>cell_pid = ''4242'', cell_name = ''python3'',
                                cell_cpu = 7.5, cell_memory = 1.5\<rparr>]"
    using update_stats_answer [OF others_answer_quiet_host, of "setup_ui \<lparr>ni_sent = 1, ni_recv = 2\<rparr>"]
    by (simp add: quiet_host_def sorted_reverse_def row_of_def str_int_4242)
  have l: "log_output ?m = []"
    by (simp add: log_output_update_stats setup_ui_def)
  from kill_process_not_found [where os_kill = example_kill and pid = 4242
      and py_str = example_str and row = 0 and self = ?m and rows = "[]"
      and timestamp = "''12:00:00''"] k t l
  show ?thesis by (simp add: str_int_4242)
qed

text \<open>
  C10. \<open>kill_process\<close> returns a pair for every pid and every answer of the operating
  system, so nothing is raised to the caller: a sent signal gives
  \<^verbatim>\<open>(True, "Process <pid> terminated successfully")\<close>, a refused one
  \<^verbatim>\<open>(False, "Permission denied to kill process <pid>")\<close>, and every failure gives
  \<^verbatim>\<open>False\<close> with a message that is not empty.
\<close>

theorem kill_process_total:
  "(os_kill pid = None \<longrightarrow>
      kill_process py_str os_kill pid
        = (True, ''Process '' @ str_int pid @ '' terminated successfully''))
   \<and> (os_kill pid = Some PermissionError \<longrightarrow>
      kill_process py_str os_kill pid
        = (False, ''Permission denied to kill process '' @ str_int pid))
   \<and> (os_kill pid \<noteq> None \<longrightarrow>
      \<not> fst (kill_process py_str os_kill pid) \<and> snd (kill_process py_str os_kill pid) \<noteq> [])"
  by (auto simp: kill_process_def split: if_splits)

theorem kill_process_total_witness:
  "example_kill 77 = None
   \<and> kill_process example_str example_kill 77 = (True, ''Process 77 terminated successfully'')
   \<and> example_kill 1 = Some PermissionError
   \<and> kill_process example_str example_kill 1 = (False, ''Permission denied to kill process 1'')
   \<and> example_kill (- 5) \<noteq> None
   \<and> \<not> fst (kill_process example_str example_kill (- 5))"
proof -
  have a: "example_kill 77 = None" "example_kill 1 = Some PermissionError"
    "example_kill (- 5) \<noteq> None"
    by (simp_all add: example_kill_def)
  have s: "str_int 77 = ''77''" "str_int 1 = ''1''"
    by (simp_all add: str_int_def str_nat.simps)
  from kill_process_total [of example_kill 77 example_str]
    kill_process_total [of example_kill 1 example_str]
    kill_process_total [of example_kill "- 5" example_str] a s
  show ?thesis by simp
qed

text \<open>
  C5, as stated, fails for \<open>clear_storage_cache\<close>: the \<^verbatim>\<open>rm\<close> command exits with
  status 1 and a directory cannot be removed, and the result is still
  \<^verbatim>\<open>(True, "Storage caches cleared successfully!")\<close>; \<open>clear_ram_cache\<close> reports the same
  exit status as a failure.
\<close>

theorem storage_cache_counterexample:
  "clear_storage_cache example_str (Exited 1) example_cache
     = ((True, ''Storage caches cleared successfully!''), [''/home/user/.cache/thumbs.db''])
   \<and> fst (clear_ram_cache example_str (Exited 1)) = False"
  by (simp add: clear_storage_cache_def clear_ram_cache_def subprocess_run_def example_cache_def
        path_join_def)

text \<open>
  C5, amended. Each action returns a pair on every input. \<open>clear_ram_cache\<close>,
  \<open>set_power_mode\<close> and \<open>kill_process\<close> report every failure of their command (it could
  not be started, it exited with a non-zero status, the signal was refused or had no
  target) as \<^verbatim>\<open>False\<close> with a message. \<open>clear_storage_cache\<close> reports \<^verbatim>\<open>False\<close> with a
  message when \<^verbatim>\<open>rm\<close> cannot be started or the listing of the cache directory raises,
  and \<^verbatim>\<open>True\<close> otherwise, whatever the exit status of \<^verbatim>\<open>rm\<close> and whatever removing
  the entries does.
\<close>

theorem action_results:
  "clear_ram_cache py_str (Exited 0) = (True, ''RAM cache cleared successfully!'')
   \<and> (rc \<noteq> 0 \<longrightarrow>
        clear_ram_cache py_str (Exited rc)
          = (False, ''Failed to clear RAM cache: ''
               @ py_str (CalledProcessError
                   [''sudo'', ''sh'', ''-c'', ''sync; echo 3 > /proc/sys/vm/drop_caches''] rc)))
   \<and> clear_ram_cache py_str (Not_started e) = (False, ''Failed to clear RAM cache: '' @ py_str e)
   \<and> set_power_mode py_str mode (Exited 0) = (True, ''Power mode set to '' @ mode)
   \<and> (rc \<noteq> 0 \<longrightarrow>
        set_power_mode py_str mode (Exited rc)
          = (False, ''Failed to set power mode: ''
               @ py_str (CalledProcessError [''sudo'', ''powerprofilesctl'', ''set'', mode] rc)))
   \<and> set_power_mode py_str mode (Not_started e)
        = (False, ''Failed to set power mode: '' @ py_str e)
   \<and> (os_kill pid \<noteq> None \<longrightarrow>
        \<not> fst (kill_process py_str os_kill pid) \<and> snd (kill_process py_str os_kill pid) \<noteq> [])
   \<and> fst (clear_storage_cache py_str (Not_started e) fs)
        = (False, ''Failed to clear storage cache: '' @ py_str e)
   \<and> (exists_home_cache fs \<and> listdir fs = Inl e \<longrightarrow>
        fst (clear_storage_cache py_str (Exited rc) fs)
          = (False, ''Failed to clear storage cache: '' @ py_str e))
   \<and> (\<not> exists_home_cache fs \<or> \<not> isl (listdir fs) \<longrightarrow>
        fst (clear_storage_cache py_str (Exited rc) fs)
          = (True, ''Storage caches cleared successfully!''))"
proof -
  have "\<not> fst (kill_process py_str os_kill pid) \<and> snd (kill_process py_str os_kill pid) \<noteq> []"
    if "os_kill pid \<noteq> None"
    using that by (auto simp: kill_process_def split: if_splits)
  moreover have "fst (clear_storage_cache py_str (Exited rc) fs)
          = (True, ''Storage caches cleared successfully!'')"
    if "\<not> exists_home_cache fs \<or> \<not> isl (listdir fs)"
    using that by (cases "listdir fs") (auto simp: clear_storage_cache_def subprocess_run_def)
  moreover have "fst (clear_storage_cache py_str (Exited rc) fs)
          = (False, ''Failed to clear storage cache: '' @ py_str e)"
    if "exists_home_cache fs \<and> listdir fs = Inl e"
    using that by (simp add: clear_storage_cache_def subprocess_run_def)
  moreover have "fst (clear_storage_cache py_str (Not_started e) fs)
        = (False, ''Failed to clear storage cache: '' @ py_str e)"
    by (simp add: clear_storage_cache_def subprocess_run_def)
  ultimately show ?thesis
    by (simp add: clear_ram_cache_def set_power_mode_def subprocess_run_def)
qed

theorem action_results_witness:
  "clear_ram_cache example_str (Exited 1)
     = (False, ''Failed to clear RAM cache: error'')
   \<and> set_power_mode example_str ''balanced'' (Exited 1)
     = (False, ''Failed to set power mode: error'')
   \<and> example_kill 1 \<noteq> None \<and> \<not> fst (kill_process example_str example_kill 1)
   \<and> exists_home_cache (example_cache\<lparr>listdir := Inl PermissionError\<rparr>)
   \<and> fst (clear_storage_cache example_str (Exited 1)
            (example_cache\<lparr>listdir := Inl PermissionError\<rparr>))
       = (False, ''Failed to clear storage cache: error'')
   \<and> \<not> isl (listdir example_cache)
   \<and> fst (clear_storage_cache example_str (Exited 1) example_cache)
       = (True, ''Storage caches cleared successfully!'')"
proof -
  have a: "(1::int) \<noteq> 0" "example_kill 1 \<noteq> None"
    "exists_home_cache (example_cache\<lparr>listdir := Inl PermissionError\<rparr>)"
    "listdir (example_cache\<lparr>listdir := Inl PermissionError\<rparr>) = Inl PermissionError"
    "\<not> isl (listdir example_cache)"
    by (simp_all add: example_kill_def example_cache_def)
  have s: "example_str PermissionError = ''error''" "example_str (CalledProcessError args 1) = ''error''"
    for args
    by (simp_all add: example_str_def)
  from action_results [of example_str 1 PermissionError "''balanced''" example_kill 1
      "example_cache\<lparr>listdir := Inl PermissionError\<rparr>"]
    action_results [of example_str 1 PermissionError "''balanced''" example_kill 1 example_cache]
    a s
  show ?thesis by simp
qed

subsection \<open>Network traffic since the baseline\<close>

lemma baseline_update_stats:
  "network_baseline (snd (update_stats env self)) = network_baseline self"
  by (simp add: update_stats_def Let_def split: sum.splits)

lemma baseline_handle:
  "network_baseline (handle py_str self ev) = network_baseline self"
  by (cases ev)
     (simp_all add: baseline_update_stats kill_selected_process_def apply_power_mode_def
        clear_ram_cache_action_def clear_storage_cache_action_def Let_def
        split: list.splits option.splits prod.splits)

lemma baseline_run:
  "network_baseline (run py_str events self) = network_baseline self"
proof (induction events arbitrary: self)
  case Nil
  show ?case by (simp add: run_def)
next
  case (Cons ev events)
  from Cons.IH [of "handle py_str self ev"] show ?case
    by (simp add: run_def baseline_handle)
qed

lemma network_labels:
  assumes "others_answer env"
  shows "network_sent_label (snd (update_stats env self))
           = Sent_MB (real_of_int (bytes_sent (projr (net_io_counters env))) / 1024 ^ 2
                        - ni_sent (network_baseline self))"
    and "network_recv_label (snd (update_stats env self))
           = Received_MB (real_of_int (bytes_recv (projr (net_io_counters env))) / 1024 ^ 2
                            - ni_recv (network_baseline self))"
proof -
  from assms obtain cpu ram bat disk net boot ps where
    "cpu_percent env = Inr cpu" "virtual_memory env = Inr ram" "sensors_battery env = Inr bat"
    "disk_usage env = Inr disk" "net_io_counters env = Inr net" "boot_time env = Inr boot"
    "process_iter env = Inr ps"
    by (rule others_answerE)
  then show "network_sent_label (snd (update_stats env self))
           = Sent_MB (real_of_int (bytes_sent (projr (net_io_counters env))) / 1024 ^ 2
                        - ni_sent (network_baseline self))"
    and "network_recv_label (snd (update_stats env self))
           = Received_MB (real_of_int (bytes_recv (projr (net_io_counters env))) / 1024 ^ 2
                            - ni_recv (network_baseline self))"
    by (cases bat;
        simp add: update_defs read_metrics_def get_battery_info_def get_disk_info_def
          get_network_info_def)+
qed

lemma init_baseline:
  assumes "init boot = Inr m0"
  shows "network_baseline m0 = \<lparr>ni_sent = real_of_int (bytes_sent (projr boot)) / 1024 ^ 2,
                                 ni_recv = real_of_int (bytes_recv (projr boot)) / 1024 ^ 2\<rparr>"
  using assms
  by (cases boot) (auto simp: init_def get_network_info_def setup_ui_def)

lemma megabytes_diff:
  "real_of_int a / 1024 ^ 2 - real_of_int b / 1024 ^ 2 = real_of_int (a - b) / 1024 ^ 2"
  by (simp add: diff_divide_distrib)

text \<open>
  C6. The network baseline is what the counters were at construction, and no event
  changes it. A tick whose sources answer shows, for each direction, the counter of
  that tick minus the counter of the baseline, in megabytes (on counters below
  \<open>2 ^ 53\<close> bytes the doubles of the source compute this difference exactly). From one
  tick to a later one, whatever is handled in between, the figure shown does not
  decrease when the counter has not decreased.
\<close>

theorem network_delta:
  assumes "init boot = Inr m0" and "others_answer env1" and "others_answer env2"
  shows
    "network_baseline (run py_str before m0) = network_baseline m0
     \<and> network_baseline (snd (update_stats env2
          (run py_str between (snd (update_stats env1 (run py_str before m0))))))
         = network_baseline m0
     \<and> network_sent_label (snd (update_stats env1 (run py_str before m0)))
         = Sent_MB (real_of_int (bytes_sent (projr (net_io_counters env1))
                                   - bytes_sent (projr boot)) / 1024 ^ 2)
     \<and> network_recv_label (snd (update_stats env1 (run py_str before m0)))
         = Received_MB (real_of_int (bytes_recv (projr (net_io_counters env1))
                                       - bytes_recv (projr boot)) / 1024 ^ 2)
     \<and> network_sent_label (snd (update_stats env2
          (run py_str between (snd (update_stats env1 (run py_str before m0))))))
         = Sent_MB (real_of_int (bytes_sent (projr (net_io_counters env2))
                                   - bytes_sent (projr boot)) / 1024 ^ 2)
     \<and> network_recv_label (snd (update_stats env2
          (run py_str between (snd (update_stats env1 (run py_str before m0))))))
         = Received_MB (real_of_int (bytes_recv (projr (net_io_counters env2))
                                       - bytes_recv (projr boot)) / 1024 ^ 2)
     \<and> (bytes_sent (projr (net_io_counters env1)) \<le> bytes_sent (projr (net_io_counters env2))
          \<longrightarrow> real_of_int (bytes_sent (projr (net_io_counters env1))
                             - bytes_sent (projr boot)) / 1024 ^ 2
              \<le> real_of_int (bytes_sent (projr (net_io_counters env2))
                                - bytes_sent (projr boot)) / 1024 ^ 2)
     \<and> (bytes_recv (projr (net_io_counters env1)) \<le> bytes_recv (projr (net_io_counters env2))
          \<longrightarrow> real_of_int (bytes_recv (projr (net_io_counters env1))
                             - bytes_recv (projr boot)) / 1024 ^ 2
              \<le> real_of_int (bytes_recv (projr (net_io_counters env2))
                                - bytes_recv (projr boot)) / 1024 ^ 2)"
proof -
  let ?m = "run py_str before m0"
  let ?m1 = "snd (update_stats env1 ?m)"
  let ?m' = "run py_str between ?m1"
  have b: "network_baseline ?m = network_baseline m0" by (rule baseline_run)
  have b': "network_baseline ?m' = network_baseline m0"
    by (simp add: baseline_run baseline_update_stats)
  have b2: "network_baseline (snd (update_stats env2 ?m')) = network_baseline m0"
    by (simp add: baseline_run baseline_update_stats)
  note base = init_baseline [OF assms(1)]
  have l1: "network_sent_label ?m1
         = Sent_MB (real_of_int (bytes_sent (projr (net_io_counters env1))
                                   - bytes_sent (projr boot)) / 1024 ^ 2)"
    "network_recv_label ?m1
         = Received_MB (real_of_int (bytes_recv (projr (net_io_counters env1))
                                       - bytes_recv (projr boot)) / 1024 ^ 2)"
    using network_labels [OF assms(2), of ?m]
    by (simp_all only: b base net_info.simps megabytes_diff)
  have l2: "network_sent_label (snd (update_stats env2 ?m'))
         = Sent_MB (real_of_int (bytes_sent (projr (net_io_counters env2))
                                   - bytes_sent (projr boot)) / 1024 ^ 2)"
    "network_recv_label (snd (update_stats env2 ?m'))
         = Received_MB (real_of_int (bytes_recv (projr (net_io_counters env2))
                                       - bytes_recv (projr boot)) / 1024 ^ 2)"
    using network_labels [OF assms(3), of ?m']
    by (simp_all only: b' base net_info.simps megabytes_diff)
  have mono: "a \<le> c \<longrightarrow> real_of_int (a - z) / 1024 ^ 2 \<le> real_of_int (c - z) / 1024 ^ 2"
    for a c z :: int
    by (simp add: divide_right_mono)
  from b b2 l1 l2 mono show ?thesis by blast
qed

theorem network_delta_witness:
  "init (Inr \<lparr>bytes_sent = 1048576, bytes_recv = 2097152\<rparr>)
     = Inr (setup_ui \<lparr>ni_sent = 1, ni_recv = 2\<rparr>)
   \<and> others_answer quiet_host \<and> others_answer busier_host
   \<and> network_sent_label (snd (update_stats quiet_host (setup_ui \<lparr>ni_sent = 1, ni_recv = 2\<rparr>)))
       = Sent_MB 2
   \<and> network_sent_label (snd (update_stats busier_host
        (run example_str [Clear_ram_clicked (Exited 0) ''12:00:00'']
           (snd (update_stats quiet_host (setup_ui \<lparr>ni_sent = 1, ni_recv = 2\<rparr>))))))
       = Sent_MB 3
   \<and> network_baseline (snd (update_stats busier_host
        (run example_str [Clear_ram_clicked (Exited 0) ''12:00:00'']
           (snd (update_stats quiet_host (setup_ui \<lparr>ni_sent = 1, ni_recv = 2\<rparr>))))))
       = \<lparr>ni_sent = 1, ni_recv = 2\<rparr>"
proof -
  have i: "init (Inr \<lparr>bytes_sent = 1048576, bytes_recv = 2097152\<rparr>)
     = Inr (setup_ui \<lparr>ni_sent = 1, ni_recv = 2\<rparr>)"
    by (simp add: init_def get_network_info_def)
  have o: "others_answer quiet_host" "others_answer busier_host"
    by (simp_all add: others_answer_def quiet_host_def busier_host_def)
  have c: "projr (net_io_counters quiet_host) = \<lparr>bytes_sent = 3145728, bytes_recv = 5242880\<rparr>"
    "projr (net_io_counters busier_host) = \<lparr>bytes_sent = 4194304, bytes_recv = 5242880\<rparr>"
    by (simp_all add: quiet_host_def busier_host_def)
  have r: "run example_str [] m = m" for m by (simp add: run_def)
  have s: "network_baseline (setup_ui \<lparr>ni_sent = 1, ni_recv = 2\<rparr>) = \<lparr>ni_sent = 1, ni_recv = 2\<rparr>"
    by (simp add: setup_ui_def)
  from network_delta [OF i o, of example_str "[]" "[Clear_ram_clicked (Exited 0) ''12:00:00'']"]
  show ?thesis using i o by (simp add: c r s)
qed

end
